theory Spec2Isabelle
  imports Complex_Main
begin

section \<open>JavaScript values used by the components\<close>

text \<open>
  The front end consists of React function components written in JavaScript. The values
  they handle are JSON data from the REST API, strings read from HTML controls, and
  numbers obtained by coercing such strings. Strings are character lists (code units up
  to 255). A JSON number is kept as an integer: the numeric fields of this API are
  primary keys, and the components never compute with them.
\<close>

datatype jsval =
    JUndefined
  | JNull
  | JBool bool
  | JNum int
  | JStr string
  | JArr "jsval list"
  | JObj "(string \<times> jsval) list"

type_synonym jsobj = "(string \<times> jsval) list"

text \<open>
  An object is the list of its properties; reading a property takes its first entry, and
  a missing property reads as \<open>undefined\<close>.
\<close>

definition get_prop :: "jsobj \<Rightarrow> string \<Rightarrow> jsval" where
  "get_prop obj k = (case map_of obj k of None \<Rightarrow> JUndefined | Some v \<Rightarrow> v)"

text \<open>Decimal rendering of a natural number, as a template literal prints a length.\<close>

definition digit_char :: "nat \<Rightarrow> char" where
  "digit_char d = char_of (48 + d)"

fun string_of_nat :: "nat \<Rightarrow> string" where
  "string_of_nat n =
     (if n < 10 then [digit_char n]
      else string_of_nat (n div 10) @ [digit_char (n mod 10)])"

declare string_of_nat.simps [simp del]

definition string_of_int :: "int \<Rightarrow> string" where
  "string_of_int i =
     (if i < 0 then CHR ''-'' # string_of_nat (nat (- i)) else string_of_nat (nat i))"

fun join :: "string \<Rightarrow> string list \<Rightarrow> string" where
  "join sep [] = []"
| "join sep [x] = x"
| "join sep (x # y # ys) = x @ sep @ join sep (y # ys)"

text \<open>
  The string form of a value (what \<open>+\<close> with a string operand and template literals
  use). An array prints its elements joined by commas, with \<open>null\<close> and \<open>undefined\<close>
  elements printed as nothing; a plain object prints as \<open>[object Object]\<close>. Integers
  print in decimal, which is what JavaScript does below \<open>10^21\<close> in magnitude.
\<close>

fun ToString :: "jsval \<Rightarrow> string" where
  "ToString JUndefined = ''undefined''"
| "ToString JNull = ''null''"
| "ToString (JBool b) = (if b then ''true'' else ''false'')"
| "ToString (JNum i) = string_of_int i"
| "ToString (JStr s) = s"
| "ToString (JArr xs) =
     join '','' (map (\<lambda>x. if x = JUndefined \<or> x = JNull then [] else ToString x) xs)"
| "ToString (JObj fields) = ''[object Object]''"

section \<open>GenericModelSelect: props and hook state\<close>

text \<open>
  The source file of GenericModelSelect holds two versions of the component. The model
  follows the second, which is complete; the first refers to \<open>modelAPIRoute\<close> and
  \<open>canSelectMultiple\<close> without defining them.

  The component takes the props \<open>parentFormName\<close>, \<open>onChange\<close>, \<open>modelName\<close>,
  \<open>selectedValues\<close> and \<open>canSelectMultiple\<close>. The callback \<open>onChange\<close> is not a field
  here: a call of it is recorded as an effect of the change handler (see below).
\<close>

record props =
  parentFormName :: string
  modelName :: string
  selectedValues :: jsval
  canSelectMultiple :: bool

text \<open>
  The \<open>error\<close> hook holds \<open>null\<close> (initially, and when a fetch starts), \<open>false\<close>
  (when data arrives), a message string (an invalid model name), or the error object a
  rejected request was caught with, kept as its \<open>name\<close> and \<open>message\<close>.
\<close>

datatype errval =
    ENull
  | EFalse
  | EMsg string
  | EObject string string

fun truthy :: "errval \<Rightarrow> bool" where
  "truthy ENull = False"
| "truthy EFalse = False"
| "truthy (EMsg m) = (m \<noteq> [])"
| "truthy (EObject n m) = True"

text \<open>The template literal \<open>`${error}`\<close>; an error object prints as \<open>name: message\<close>.\<close>

fun error_text :: "errval \<Rightarrow> string" where
  "error_text ENull = ''null''"
| "error_text EFalse = ''false''"
| "error_text (EMsg m) = m"
| "error_text (EObject n m) =
     (if n = [] then m else if m = [] then n else n @ '': '' @ m)"

text \<open>
  The body of a response is taken at the shape the component expects of the API, an
  object whose \<open>results\<close> field is an array of records; each record is an object with
  any fields.
\<close>

record response_data =
  results :: "jsobj list"

record response =
  data :: response_data

record request =
  req_method :: string
  req_url :: string
  req_timeout :: nat

text \<open>
  One component instance: the three \<open>useState\<close> cells and the requests it has handed
  to axios so far. Each run of the effect has its own two local variables, which its
  callbacks close over: \<open>ignore_request_output\<close> and the abort controller, kept as
  whether it has been aborted.
\<close>

record component =
  models :: "jsobj list"
  isLoading :: bool
  error :: errval
  requests :: "request list"

record closure =
  ignore_request_output :: bool
  controller_aborted :: bool

definition initial :: component where
  "initial = \<lparr>models = [], isLoading = False, error = ENull, requests = []\<rparr>"

definition setModels :: "jsobj list \<Rightarrow> component \<Rightarrow> component" where
  "setModels v s = s\<lparr>models := v\<rparr>"

definition setIsLoading :: "bool \<Rightarrow> component \<Rightarrow> component" where
  "setIsLoading v s = s\<lparr>isLoading := v\<rparr>"

definition setError :: "errval \<Rightarrow> component \<Rightarrow> component" where
  "setError v s = s\<lparr>error := v\<rparr>"

definition axios_get :: "string \<Rightarrow> nat \<Rightarrow> component \<Rightarrow> component" where
  "axios_get url timeout s =
     s\<lparr>requests := requests s @
         [\<lparr>req_method = ''GET'', req_url = url, req_timeout = timeout\<rparr>]\<rparr>"

section \<open>GenericModelSelect: routes and parsing\<close>

definition getAPIRouteFromModelName :: "string \<Rightarrow> component \<Rightarrow> string \<times> component" where
  "getAPIRouteFromModelName name s =
     (let isBook = (name = ''book'');
          isBookInstance = (name = ''bookinstance'');
          isAuthor = (name = ''author'');
          isGenre = (name = ''genre'');
          isLanguage = (name = ''language'')
      in if isBook \<or> isBookInstance \<or> isAuthor \<or> isGenre \<or> isLanguage
         then (name @ ''s'', s)
         else (let err = ''Given invalid modelName in API route selector:'' @ name
               in ([], setError (EMsg err) s)))"

text \<open>
  \<open>shapeAuthorResults\<close> maps each author to an object with the fields \<open>id\<close> and
  \<open>name\<close>. The name is \<open>first_name + " " + last_name\<close>: the middle operand is a
  string, so both \<open>+\<close> are string concatenations of the operands' string forms.
\<close>

definition shapeAuthorResults :: "jsobj list \<Rightarrow> jsobj list" where
  "shapeAuthorResults authorArray =
     map (\<lambda>author.
            let id = get_prop author ''id'';
                first_name = get_prop author ''first_name'';
                last_name = get_prop author ''last_name'';
                name = JStr (ToString first_name @ '' '' @ ToString last_name)
            in [(''id'', id), (''name'', name)])
         authorArray"

definition parseModelListForFormOptions ::
    "props \<Rightarrow> response_data \<Rightarrow> component \<Rightarrow> jsobj list \<times> component" where
  "parseModelListForFormOptions p responseData s =
     (let isBook = (modelName p = ''book'');
          isBookInstance = (modelName p = ''bookinstance'');
          isAuthor = (modelName p = ''author'');
          isGenre = (modelName p = ''genre'');
          isLanguage = (modelName p = ''language'')
      in if isBook then
           ([ [(''id'', JNum 1), (''name'', JStr ''DUMMY BOOK'')],
             [(''id'', JNum 2), (''name'', JStr ''SECOND DUMMY BOOK'')] ], s)
         else if isBookInstance then
           ([ [(''id'', JNum 1), (''name'', JStr ''DUMMY BOOK INSTANCE'')],
             [(''id'', JNum 2), (''name'', JStr ''SECOND DUMMY INSTANCE'')] ], s)
         else if isAuthor then (shapeAuthorResults (results responseData), s)
         else if isGenre then (results responseData, s)
         else if isLanguage then (results responseData, s)
         else (let err = ''Given invalid modelName in generic model select:'' @ modelName p
               in ([], setError (EMsg err) s)))"

section \<open>GenericModelSelect: the fetch effect\<close>

text \<open>
  \<open>fetchModelHandler\<close> marks the component as loading, clears the error, computes the
  route and hands one GET request with a timeout of 5000 ms to axios. The effect runs it
  once per mount (its dependency array is empty); the cleanup sets the stale flag and
  aborts the controller.
\<close>

definition fetchModelHandler :: "props \<Rightarrow> component \<Rightarrow> component" where
  "fetchModelHandler p s =
     (let s1 = setIsLoading True s;
          s2 = setError ENull s1;
          (modelAPIRoute, s3) = getAPIRouteFromModelName (modelName p) s2
      in axios_get (''http://localhost:8000/api/'' @ modelAPIRoute @ ''/'') 5000 s3)"

definition effect_mount :: "props \<Rightarrow> component \<Rightarrow> closure \<times> component" where
  "effect_mount p s =
     (\<lparr>ignore_request_output = False, controller_aborted = False\<rparr>, fetchModelHandler p s)"

definition effect_cleanup :: "closure \<Rightarrow> closure" where
  "effect_cleanup c = c\<lparr>ignore_request_output := True, controller_aborted := True\<rparr>"

text \<open>
  The request settles in one of two ways. When it is fulfilled, the first \<open>then\<close>
  passes \<open>response.data\<close> to the second, which applies it unless the stale flag of
  its effect run is set. When it is rejected (a network failure, the timeout, or the
  abort of the cleanup, which axios reports as a \<open>CanceledError\<close>), the \<open>catch\<close>
  callback runs; it reads neither variable of the effect run.
\<close>

definition on_fulfilled :: "props \<Rightarrow> closure \<Rightarrow> response \<Rightarrow> component \<Rightarrow> component" where
  "on_fulfilled p c resp s =
     (let d = data resp
      in if \<not> ignore_request_output c then
           (let s1 = setError EFalse s;
                (responseModels, s2) = parseModelListForFormOptions p d s1;
                s3 = setIsLoading False s2
            in setModels responseModels s3)
         else s)"

definition on_rejected :: "errval \<Rightarrow> component \<Rightarrow> component" where
  "on_rejected err s = setError err (setIsLoading False s)"

section \<open>Coercing the string of a control to a number\<close>

text \<open>
  The change handlers apply unary \<open>+\<close> to the \<open>value\<close> of each selected option, which
  is a string. The result is a number: the value of the string read as a numeric
  literal, \<open>0\<close> for a blank string, and \<open>NaN\<close> for anything else. A finite number is
  kept as the exact value of the literal (the rounding to a binary64 float is not part
  of the model; it changes nothing for integers below \<open>2^53\<close>).
\<close>

datatype jsnum = NaN | PosInfinity | NegInfinity | Finite rat

definition StrWhiteSpaceChar :: "char \<Rightarrow> bool" where
  "StrWhiteSpaceChar c = ((of_char c :: nat) \<in> {9, 10, 11, 12, 13, 32, 160})"

definition trim :: "string \<Rightarrow> string" where
  "trim s = rev (dropWhile StrWhiteSpaceChar (rev (dropWhile StrWhiteSpaceChar s)))"

definition is_digit :: "char \<Rightarrow> bool" where
  "is_digit c = (48 \<le> (of_char c :: nat) \<and> (of_char c :: nat) \<le> 57)"

definition is_hex_letter :: "char \<Rightarrow> bool" where
  "is_hex_letter c =
     ((97 \<le> (of_char c :: nat) \<and> (of_char c :: nat) \<le> 102) \<or>
      (65 \<le> (of_char c :: nat) \<and> (of_char c :: nat) \<le> 70))"

definition digit_value :: "char \<Rightarrow> nat" where
  "digit_value c =
     (let n = of_char c
      in if 97 \<le> n then n - 87 else if 65 \<le> n then n - 55 else n - 48)"

definition is_radix_digit :: "nat \<Rightarrow> char \<Rightarrow> bool" where
  "is_radix_digit r c = ((is_digit c \<or> is_hex_letter c) \<and> digit_value c < r)"

definition digits_value :: "nat \<Rightarrow> string \<Rightarrow> nat" where
  "digits_value r ds = foldl (\<lambda>a c. r * a + digit_value c) 0 ds"

text \<open>\<open>0x\<close>, \<open>0o\<close> and \<open>0b\<close> literals: no sign, at least one digit of the radix.\<close>

definition non_decimal :: "string \<Rightarrow> nat option" where
  "non_decimal s =
     (case s of
        z # c # ds \<Rightarrow>
          (let r = (if c = CHR ''x'' \<or> c = CHR ''X'' then 16
                    else if c = CHR ''o'' \<or> c = CHR ''O'' then 8
                    else if c = CHR ''b'' \<or> c = CHR ''B'' then 2
                    else (0::nat))
           in if z = CHR ''0'' \<and> r \<noteq> 0 \<and> ds \<noteq> [] \<and> list_all (is_radix_digit r) ds
              then Some (digits_value r ds) else None)
      | _ \<Rightarrow> None)"

definition decimal_digits :: "string \<Rightarrow> nat option" where
  "decimal_digits s =
     (if s \<noteq> [] \<and> list_all is_digit s then Some (digits_value 10 s) else None)"

definition signed_integer :: "string \<Rightarrow> int option" where
  "signed_integer s =
     (case s of
        [] \<Rightarrow> None
      | c # ds \<Rightarrow>
          if c = CHR ''+'' then map_option int (decimal_digits ds)
          else if c = CHR ''-'' then map_option (\<lambda>n. - int n) (decimal_digits ds)
          else map_option int (decimal_digits s))"

definition exponent_part :: "string \<Rightarrow> int option" where
  "exponent_part s =
     (case s of
        [] \<Rightarrow> Some 0
      | e # ds \<Rightarrow> if e = CHR ''e'' \<or> e = CHR ''E'' then signed_integer ds else None)"

definition scale10 :: "rat \<Rightarrow> int \<Rightarrow> rat" where
  "scale10 m k = (if 0 \<le> k then m * 10 ^ nat k else m / 10 ^ nat (- k))"

text \<open>
  An unsigned decimal literal is \<open>Infinity\<close>, or digits with an optional fraction and an
  optional exponent; there must be a digit before or after the dot.
\<close>

definition unsigned_decimal :: "string \<Rightarrow> jsnum option" where
  "unsigned_decimal s =
     (if s = ''Infinity'' then Some PosInfinity
      else
        (let ip = takeWhile is_digit s;
             r1 = dropWhile is_digit s;
             dot = (case r1 of [] \<Rightarrow> False | c # _ \<Rightarrow> c = CHR ''.'');
             fp = (if dot then takeWhile is_digit (tl r1) else []);
             r2 = (if dot then dropWhile is_digit (tl r1) else r1)
         in if ip = [] \<and> fp = [] then None
            else (case exponent_part r2 of
                    None \<Rightarrow> None
                  | Some e \<Rightarrow>
                      Some (Finite (scale10 (of_nat (digits_value 10 (ip @ fp)))
                                            (e - int (length fp)))))))"

fun negate :: "jsnum \<Rightarrow> jsnum" where
  "negate NaN = NaN"
| "negate PosInfinity = NegInfinity"
| "negate NegInfinity = PosInfinity"
| "negate (Finite q) = Finite (- q)"

definition signed_decimal :: "string \<Rightarrow> jsnum option" where
  "signed_decimal s =
     (case s of
        [] \<Rightarrow> None
      | c # t \<Rightarrow>
          if c = CHR ''+'' then unsigned_decimal t
          else if c = CHR ''-'' then map_option negate (unsigned_decimal t)
          else unsigned_decimal s)"

definition ToNumber :: "string \<Rightarrow> jsnum" where
  "ToNumber s =
     (let t = trim s
      in if t = [] then Finite 0
         else (case non_decimal t of
                 Some n \<Rightarrow> Finite (of_nat n)
               | None \<Rightarrow> (case signed_decimal t of Some v \<Rightarrow> v | None \<Rightarrow> NaN)))"

section \<open>Change handlers\<close>

text \<open>
  A change event carries the select element as its target: the element's own \<open>value\<close>
  and its selected options in document order. A handler returns what it does, in order:
  its console calls and its calls of the parent's \<open>onChange\<close>.
\<close>

record html_option =
  opt_value :: string

record target =
  tgt_value :: string
  selectedOptions :: "html_option list"

datatype selected = Multi "jsnum list" | Single string

record change_object =
  co_modelName :: string
  co_selectedValues :: selected

datatype logarg =
    LStr string
  | LOptions "html_option list"
  | LSelected selected
  | LChange change_object

datatype effect =
    ConsoleGroup string
  | ConsoleLog "logarg list"
  | ConsoleInfo "logarg list"
  | ConsoleGroupEnd
  | ParentOnChange change_object

fun parent_calls :: "effect list \<Rightarrow> change_object list" where
  "parent_calls [] = []"
| "parent_calls (ParentOnChange c # es) = c # parent_calls es"
| "parent_calls (e # es) = parent_calls es"

definition GenericModelSelect_handleSelectChange :: "props \<Rightarrow> target \<Rightarrow> effect list" where
  "GenericModelSelect_handleSelectChange p tgt =
     (let opening = ConsoleGroup (''Generic ('' @ modelName p @ '') Model Select Change Handler'');
          (selected, logged) =
            (if canSelectMultiple p then
               (let htmlSelected = selectedOptions tgt;
                    selected = Multi (map (\<lambda>option. ToNumber (opt_value option)) htmlSelected)
                in (selected, ConsoleLog [LStr ''multi selected:'', LSelected selected]))
             else
               (let selected = Single (tgt_value tgt)
                in (selected, ConsoleLog [LStr ''single selected:'', LSelected selected])));
          changeObject = \<lparr>co_modelName = modelName p, co_selectedValues = selected\<rparr>
      in [opening,
          logged,
          ConsoleInfo [LStr ''sending up changeObject:'', LChange changeObject, LStr ''to parent''],
          ConsoleGroupEnd,
          ParentOnChange changeObject])"

text \<open>
  GenreMultiSelect takes an \<open>onChange\<close> prop as well, but its handler never refers to
  it: it reads the selected options, coerces their values and logs the array.
\<close>

definition GenreMultiSelect_handleSelectChange :: "target \<Rightarrow> effect list" where
  "GenreMultiSelect_handleSelectChange tgt =
     (let selectedOptions = selectedOptions tgt;
          options_array = map (\<lambda>option. ToNumber (opt_value option)) selectedOptions
      in [ConsoleGroup ''Genre Select Change Handler'',
          ConsoleInfo [LOptions selectedOptions],
          ConsoleInfo [LSelected (Multi options_array)],
          ConsoleGroupEnd])"

section \<open>GenericModelSelect: what is rendered\<close>

text \<open>
  The component returns a form group with a label and one select element, followed by a
  hint when several values can be chosen. The select element is described by the props
  the component passes to it and by its children: one item per model, or a single
  option holding a message. The component passes \<open>size\<close> and never \<open>htmlSize\<close>.
\<close>

datatype child =
    MultiSelectItem jsval jsval jsval
  | PlainOption "string option"

record form_select =
  sel_value :: "jsval option"
  sel_onChange :: bool
  sel_name :: "string option"
  sel_size :: string
  sel_htmlSize :: "string option"
  sel_aria_label :: string
  sel_multiple :: bool
  sel_disabled :: bool
  sel_children :: "child list"

record view =
  controlId :: string
  label :: string
  select :: form_select
  hint :: "string option"

definition GenericModelSelect :: "props \<Rightarrow> component \<Rightarrow> view" where
  "GenericModelSelect p s =
     (let controlId = parentFormName p @ modelName p;
          content =
            (if length (models s) > 0 \<and> \<not> truthy (error s) then
               (\<lparr>sel_value = Some (selectedValues p),
                 sel_onChange = True,
                 sel_name = Some (modelName p),
                 sel_size = string_of_nat
                   (if length (models s) \<le> 8 then length (models s) else 8),
                 sel_htmlSize = None,
                 sel_aria_label =
                   modelName p @ '' '' @
                   (if canSelectMultiple p then ''Multi-Select'' else ''Select''),
                 sel_multiple = canSelectMultiple p,
                 sel_disabled = truthy (error s),
                 sel_children =
                   map (\<lambda>m. let id = get_prop m ''id''; name = get_prop m ''name''
                             in MultiSelectItem id id name)
                       (models s)\<rparr>,
                if canSelectMultiple p then Some ''ctrl/cmd + click to select multiple''
                else None)
             else
               (let only_value_text = None;
                    only_value_text =
                      (if length (models s) = 0
                       then Some (''No '' @ modelName p @ '' s Found'')
                       else only_value_text);
                    only_value_text =
                      (if truthy (error s) then Some (error_text (error s))
                       else only_value_text);
                    only_value_text =
                      (if isLoading s then Some ''Loading...'' else only_value_text)
                in (\<lparr>sel_value = None,
                     sel_onChange = False,
                     sel_name = None,
                     sel_size = ''1'',
                     sel_htmlSize = None,
                     sel_aria_label = modelName p @ '' Select'',
                     sel_multiple = False,
                     sel_disabled = True,
                     sel_children = [PlainOption only_value_text]\<rparr>,
                    None)))
      in \<lparr>controlId = controlId,
          label = modelName p @ (if canSelectMultiple p then ''(s)'' else []),
          select = fst content,
          hint = snd content\<rparr>)"

section \<open>The select element that Form.Select renders\<close>

text \<open>
  \<open>Form.Select\<close> is imported from the library react-bootstrap; it is not code of this
  repository. What it does with the two props that matter here is taken from the
  library: \<open>size\<close> names a style variant and is appended to the class name as
  \<open>form-select-{size}\<close>; the \<open>size\<close> attribute of the \<open>select\<close> element, which
  sets the number of visible rows, is the \<open>htmlSize\<close> prop, and is absent when that
  prop is. The other props are handed to the element as they are.
\<close>

record select_element =
  el_class :: string
  el_size :: "string option"
  el_name :: "string option"
  el_aria_label :: string
  el_multiple :: bool
  el_disabled :: bool
  el_children :: "child list"

definition Form_Select :: "form_select \<Rightarrow> select_element" where
  "Form_Select fs =
     \<lparr>el_class =
        ''form-select'' @ (if sel_size fs \<noteq> [] then '' form-select-'' @ sel_size fs else []),
      el_size = sel_htmlSize fs,
      el_name = sel_name fs,
      el_aria_label = sel_aria_label fs,
      el_multiple = sel_multiple fs,
      el_disabled = sel_disabled fs,
      el_children = sel_children fs\<rparr>"

section \<open>GenreMultiSelect: the static options\<close>

text \<open>
  GenreMultiSelect renders a multiple select with three fixed options, given here as
  the \<open>value\<close> attribute and the text of each.
\<close>

definition GenreMultiSelect_options :: "(string \<times> string) list" where
  "GenreMultiSelect_options = [(''1'', ''One''), (''2'', ''Two''), (''3'', ''Three'')]"

section \<open>Example inputs\<close>

abbreviation book_props :: props where
  "book_props \<equiv>
     \<lparr>parentFormName = ''AddBook'', modelName = ''book'',
       selectedValues = JStr [], canSelectMultiple = False\<rparr>"

abbreviation genre_props :: props where
  "genre_props \<equiv>
     \<lparr>parentFormName = ''AddBook'', modelName = ''genre'',
       selectedValues = JArr [], canSelectMultiple = True\<rparr>"

abbreviation empty_response :: response where
  "empty_response \<equiv> \<lparr>data = \<lparr>results = []\<rparr>\<rparr>"

abbreviation canceled :: errval where
  "canceled \<equiv> EObject ''CanceledError'' ''canceled''"

section \<open>Properties of parsing\<close>

lemmas hook_defs = setModels_def setIsLoading_def setError_def axios_get_def

lemma shapeAuthorResults_length: "length (shapeAuthorResults xs) = length xs"
  by (simp add: shapeAuthorResults_def)

lemma shapeAuthorResults_nth:
  assumes "i < length xs"
  shows "shapeAuthorResults xs ! i =
           [(''id'', get_prop (xs ! i) ''id''),
            (''name'', JStr (ToString (get_prop (xs ! i) ''first_name'') @ '' '' @
                             ToString (get_prop (xs ! i) ''last_name'')))]"
  using assms by (simp add: shapeAuthorResults_def Let_def)

text \<open>
  C4. An author record whose \<open>first_name\<close> and \<open>last_name\<close> are strings is normalised
  to an option whose name is the first name, one space, and the last name, and whose id
  is the id of the record, unchanged.
\<close>

theorem author_normalisation:
  assumes "i < length authors"
    and "get_prop (authors ! i) ''first_name'' = JStr fname"
    and "get_prop (authors ! i) ''last_name'' = JStr lname"
  shows "shapeAuthorResults authors ! i =
           [(''id'', get_prop (authors ! i) ''id''), (''name'', JStr (fname @ '' '' @ lname))]"
  using assms by (simp add: shapeAuthorResults_nth)

theorem author_normalisation_witness:
  "shapeAuthorResults
     [ [(''id'', JNum 7), (''first_name'', JStr ''Jane''), (''last_name'', JStr ''Austen'')] ] ! 0 =
   [(''id'', JNum 7), (''name'', JStr ''Jane Austen'')]"
  using author_normalisation [of 0
      "[ [(''id'', JNum 7), (''first_name'', JStr ''Jane''), (''last_name'', JStr ''Austen'')] ]"
      "''Jane''" "''Austen''"]
  by (simp add: get_prop_def)

text \<open>
  C5. For the kinds author, genre and language, parsing a response with N records
  yields N options and sets no error. The option at each position keeps the id of the
  record at that position; its name is \<open>first_name + " " + last_name\<close> for an author
  and the record's own \<open>name\<close> for a genre or a language.
\<close>

theorem parse_supported_kinds:
  assumes "modelName p = ''author'' \<or> modelName p = ''genre'' \<or> modelName p = ''language''"
  shows "length (fst (parseModelListForFormOptions p d s)) = length (results d) \<and>
         snd (parseModelListForFormOptions p d s) = s \<and>
         (\<forall>i < length (results d).
            get_prop (fst (parseModelListForFormOptions p d s) ! i) ''id'' =
              get_prop (results d ! i) ''id'' \<and>
            get_prop (fst (parseModelListForFormOptions p d s) ! i) ''name'' =
              (if modelName p = ''author''
               then JStr (ToString (get_prop (results d ! i) ''first_name'') @ '' '' @
                          ToString (get_prop (results d ! i) ''last_name''))
               else get_prop (results d ! i) ''name''))"
proof -
  consider (author) "modelName p = ''author''"
    | (passthrough) "modelName p = ''genre'' \<or> modelName p = ''language''"
    using assms by blast
  then show ?thesis
  proof cases
    case author
    then have "parseModelListForFormOptions p d s = (shapeAuthorResults (results d), s)"
      by (simp add: parseModelListForFormOptions_def)
    then show ?thesis
      using author
      by (simp add: shapeAuthorResults_length shapeAuthorResults_nth get_prop_def)
  next
    case passthrough
    then have "parseModelListForFormOptions p d s = (results d, s)"
      by (auto simp add: parseModelListForFormOptions_def)
    then show ?thesis
      using passthrough by auto
  qed
qed

theorem parse_supported_kinds_witness:
  "length (fst (parseModelListForFormOptions
      \<lparr>parentFormName = ''AddBook'', modelName = ''author'',
        selectedValues = JStr [], canSelectMultiple = False\<rparr>
      \<lparr>results =
         [ [(''id'', JNum 7), (''first_name'', JStr ''Jane''), (''last_name'', JStr ''Austen'')],
          [(''id'', JNum 9), (''first_name'', JStr ''Mary''), (''last_name'', JStr ''Shelley'')] ]\<rparr>
      initial)) = 2 \<and>
   get_prop (fst (parseModelListForFormOptions
      \<lparr>parentFormName = ''AddBook'', modelName = ''author'',
        selectedValues = JStr [], canSelectMultiple = False\<rparr>
      \<lparr>results =
         [ [(''id'', JNum 7), (''first_name'', JStr ''Jane''), (''last_name'', JStr ''Austen'')],
          [(''id'', JNum 9), (''first_name'', JStr ''Mary''), (''last_name'', JStr ''Shelley'')] ]\<rparr>
      initial) ! 1) ''name'' = JStr ''Mary Shelley''"
  using parse_supported_kinds [of
      "\<lparr>parentFormName = ''AddBook'', modelName = ''author'',
        selectedValues = JStr [], canSelectMultiple = False\<rparr>"
      "\<lparr>results =
         [ [(''id'', JNum 7), (''first_name'', JStr ''Jane''), (''last_name'', JStr ''Austen'')],
          [(''id'', JNum 9), (''first_name'', JStr ''Mary''), (''last_name'', JStr ''Shelley'')] ]\<rparr>"
      initial]
  by (simp add: get_prop_def)

text \<open>
  C1, as the component behaves. For the kinds book and bookinstance, parsing ignores the
  response and returns two fixed placeholder options without setting an error; a
  fulfilled request that is not stale stores them as the models and leaves the error
  hook at \<open>false\<close>, and the component then renders the enabled select with the two
  placeholders as its items, not the disabled control that shows an error.
\<close>

theorem parse_book_kinds:
  assumes "modelName p = ''book'' \<or> modelName p = ''bookinstance''"
  shows "parseModelListForFormOptions p d s =
           (if modelName p = ''book''
            then [ [(''id'', JNum 1), (''name'', JStr ''DUMMY BOOK'')],
                  [(''id'', JNum 2), (''name'', JStr ''SECOND DUMMY BOOK'')] ]
            else [ [(''id'', JNum 1), (''name'', JStr ''DUMMY BOOK INSTANCE'')],
                  [(''id'', JNum 2), (''name'', JStr ''SECOND DUMMY INSTANCE'')] ], s) \<and>
         (\<not> ignore_request_output c \<longrightarrow>
            error (on_fulfilled p c \<lparr>data = d\<rparr> s) = EFalse \<and>
            models (on_fulfilled p c \<lparr>data = d\<rparr> s) =
              fst (parseModelListForFormOptions p d s) \<and>
            select (GenericModelSelect p (on_fulfilled p c \<lparr>data = d\<rparr> s)) =
              \<lparr>sel_value = Some (selectedValues p),
               sel_onChange = True,
               sel_name = Some (modelName p),
               sel_size = ''2'',
               sel_htmlSize = None,
               sel_aria_label =
                 modelName p @ '' '' @
                 (if canSelectMultiple p then ''Multi-Select'' else ''Select''),
               sel_multiple = canSelectMultiple p,
               sel_disabled = False,
               sel_children =
                 (if modelName p = ''book''
                  then [MultiSelectItem (JNum 1) (JNum 1) (JStr ''DUMMY BOOK''),
                        MultiSelectItem (JNum 2) (JNum 2) (JStr ''SECOND DUMMY BOOK'')]
                  else [MultiSelectItem (JNum 1) (JNum 1) (JStr ''DUMMY BOOK INSTANCE''),
                        MultiSelectItem (JNum 2) (JNum 2)
                          (JStr ''SECOND DUMMY INSTANCE'')])\<rparr>)"
proof -
  let ?placeholders =
    "if modelName p = ''book''
     then [ [(''id'', JNum 1), (''name'', JStr ''DUMMY BOOK'')],
           [(''id'', JNum 2), (''name'', JStr ''SECOND DUMMY BOOK'')] ]
     else [ [(''id'', JNum 1), (''name'', JStr ''DUMMY BOOK INSTANCE'')],
           [(''id'', JNum 2), (''name'', JStr ''SECOND DUMMY INSTANCE'')] ]"
  have parse: "parseModelListForFormOptions p d t = (?placeholders, t)" for t
    using assms by (auto simp add: parseModelListForFormOptions_def)
  have two: "string_of_nat (Suc (Suc 0)) = ''2''"
    by code_simp
  have fulfilled: "on_fulfilled p c \<lparr>data = d\<rparr> s =
      s\<lparr>error := EFalse, isLoading := False, models := ?placeholders\<rparr>"
    if "\<not> ignore_request_output c"
    using that by (simp add: on_fulfilled_def parse hook_defs)
  have rendered: "select (GenericModelSelect p
        (s\<lparr>error := EFalse, isLoading := False, models := ?placeholders\<rparr>)) =
      \<lparr>sel_value = Some (selectedValues p),
       sel_onChange = True,
       sel_name = Some (modelName p),
       sel_size = ''2'',
       sel_htmlSize = None,
       sel_aria_label =
         modelName p @ '' '' @
         (if canSelectMultiple p then ''Multi-Select'' else ''Select''),
       sel_multiple = canSelectMultiple p,
       sel_disabled = False,
       sel_children =
         (if modelName p = ''book''
          then [MultiSelectItem (JNum 1) (JNum 1) (JStr ''DUMMY BOOK''),
                MultiSelectItem (JNum 2) (JNum 2) (JStr ''SECOND DUMMY BOOK'')]
          else [MultiSelectItem (JNum 1) (JNum 1) (JStr ''DUMMY BOOK INSTANCE''),
                MultiSelectItem (JNum 2) (JNum 2) (JStr ''SECOND DUMMY INSTANCE'')])\<rparr>"
    by (simp add: GenericModelSelect_def get_prop_def Let_def two)
  show ?thesis
    using parse [of s] fulfilled rendered by simp
qed

theorem parse_book_kinds_witness:
  "parseModelListForFormOptions
     \<lparr>parentFormName = ''AddBook'', modelName = ''bookinstance'',
       selectedValues = JStr [], canSelectMultiple = False\<rparr>
     \<lparr>results = [ [(''id'', JNum 5), (''name'', JStr ''copy'')] ]\<rparr> initial =
   ([ [(''id'', JNum 1), (''name'', JStr ''DUMMY BOOK INSTANCE'')],
     [(''id'', JNum 2), (''name'', JStr ''SECOND DUMMY INSTANCE'')] ], initial) \<and>
   error (on_fulfilled
     \<lparr>parentFormName = ''AddBook'', modelName = ''bookinstance'',
       selectedValues = JStr [], canSelectMultiple = False\<rparr>
     \<lparr>ignore_request_output = False, controller_aborted = False\<rparr>
     \<lparr>data = \<lparr>results = [ [(''id'', JNum 5), (''name'', JStr ''copy'')] ]\<rparr>\<rparr> initial) = EFalse \<and>
   select (GenericModelSelect
     \<lparr>parentFormName = ''AddBook'', modelName = ''bookinstance'',
       selectedValues = JStr [], canSelectMultiple = False\<rparr>
     (on_fulfilled
       \<lparr>parentFormName = ''AddBook'', modelName = ''bookinstance'',
         selectedValues = JStr [], canSelectMultiple = False\<rparr>
       \<lparr>ignore_request_output = False, controller_aborted = False\<rparr>
       \<lparr>data = \<lparr>results = [ [(''id'', JNum 5), (''name'', JStr ''copy'')] ]\<rparr>\<rparr> initial)) =
     \<lparr>sel_value = Some (JStr []),
      sel_onChange = True,
      sel_name = Some ''bookinstance'',
      sel_size = ''2'',
      sel_htmlSize = None,
      sel_aria_label = ''bookinstance Select'',
      sel_multiple = False,
      sel_disabled = False,
      sel_children =
        [MultiSelectItem (JNum 1) (JNum 1) (JStr ''DUMMY BOOK INSTANCE''),
         MultiSelectItem (JNum 2) (JNum 2) (JStr ''SECOND DUMMY INSTANCE'')]\<rparr>"
  using parse_book_kinds [where
      p = "\<lparr>parentFormName = ''AddBook'', modelName = ''bookinstance'',
            selectedValues = JStr [], canSelectMultiple = False\<rparr>"
      and c = "\<lparr>ignore_request_output = False, controller_aborted = False\<rparr>"
      and d = "\<lparr>results = [ [(''id'', JNum 5), (''name'', JStr ''copy'')] ]\<rparr>"
      and s = initial]
  by simp

text \<open>
  The claim as stated fails: mounting with the kind book and receiving a well-formed
  (here empty) response ends with the two placeholder records as the models and a
  falsy error hook, and the component renders them as two selectable items in a select
  that is not disabled.
\<close>

theorem book_kind_no_error_counterexample:
  "models (on_fulfilled book_props (fst (effect_mount book_props initial)) empty_response
             (snd (effect_mount book_props initial))) =
     [ [(''id'', JNum 1), (''name'', JStr ''DUMMY BOOK'')],
      [(''id'', JNum 2), (''name'', JStr ''SECOND DUMMY BOOK'')] ] \<and>
   \<not> truthy (error (on_fulfilled book_props (fst (effect_mount book_props initial))
                      empty_response (snd (effect_mount book_props initial)))) \<and>
   sel_children (select (GenericModelSelect book_props
      (on_fulfilled book_props (fst (effect_mount book_props initial)) empty_response
         (snd (effect_mount book_props initial))))) =
     [MultiSelectItem (JNum 1) (JNum 1) (JStr ''DUMMY BOOK''),
      MultiSelectItem (JNum 2) (JNum 2) (JStr ''SECOND DUMMY BOOK'')] \<and>
   \<not> sel_disabled (select (GenericModelSelect book_props
      (on_fulfilled book_props (fst (effect_mount book_props initial)) empty_response
         (snd (effect_mount book_props initial)))))"
  by (simp add: on_fulfilled_def effect_mount_def fetchModelHandler_def
      getAPIRouteFromModelName_def parseModelListForFormOptions_def hook_defs initial_def
      GenericModelSelect_def get_prop_def Let_def)

section \<open>Properties of the fetch effect\<close>

lemma stale_fulfilment_is_discarded:
  "on_fulfilled p (effect_cleanup c) resp s = s"
  by (simp add: on_fulfilled_def effect_cleanup_def)

lemma rejection_is_always_applied:
  "on_rejected e s = s\<lparr>isLoading := False, error := e\<rparr>"
  by (simp add: on_rejected_def hook_defs)

text \<open>
  C2. After the cleanup has run, a fulfilled request changes nothing (first lemma
  above), but a rejected one still does: the \<open>catch\<close> callback does not look at the
  stale flag. The abort issued by the cleanup itself rejects the request with a
  \<open>CanceledError\<close>, and the callback then clears \<open>isLoading\<close> and stores the error.
\<close>

theorem rejection_after_unmount_updates_state:
  "ignore_request_output (effect_cleanup (fst (effect_mount genre_props initial))) \<and>
   controller_aborted (effect_cleanup (fst (effect_mount genre_props initial))) \<and>
   isLoading (snd (effect_mount genre_props initial)) \<and>
   error (snd (effect_mount genre_props initial)) = ENull \<and>
   \<not> isLoading (on_rejected canceled (snd (effect_mount genre_props initial))) \<and>
   error (on_rejected canceled (snd (effect_mount genre_props initial))) = canceled"
  by (simp add: on_rejected_def effect_cleanup_def effect_mount_def fetchModelHandler_def
      getAPIRouteFromModelName_def hook_defs initial_def)

text \<open>
  The same callback acts when the effect is run again on a live instance (cleanup of the
  first run, then a second run, as under \<open>React.StrictMode\<close> in development): the
  rejection of the first, aborted request replaces \<open>Loading...\<close> by the text of the
  cancellation error while the second request is still in flight.
\<close>

lemma superseded_rejection_is_shown:
  "sel_children (select (GenericModelSelect genre_props
      (snd (effect_mount genre_props (snd (effect_mount genre_props initial)))))) =
     [PlainOption (Some ''Loading...'')] \<and>
   sel_children (select (GenericModelSelect genre_props
      (on_rejected canceled
         (snd (effect_mount genre_props (snd (effect_mount genre_props initial))))))) =
     [PlainOption (Some ''CanceledError: canceled'')]"
  by (simp add: on_rejected_def effect_mount_def fetchModelHandler_def
      getAPIRouteFromModelName_def hook_defs initial_def GenericModelSelect_def Let_def)

text \<open>
  C8. For each of the five kinds, a run of the effect hands exactly one request to
  axios: a GET of \<open>http://localhost:8000/api/{kind}s/\<close> with a timeout of 5000 ms.
  The settling of the request issues none.
\<close>

theorem mount_issues_one_get:
  assumes "modelName p = ''book'' \<or> modelName p = ''bookinstance'' \<or>
           modelName p = ''author'' \<or> modelName p = ''genre'' \<or> modelName p = ''language''"
  shows "requests (snd (effect_mount p s)) =
           requests s @
           [\<lparr>req_method = ''GET'',
             req_url = ''http://localhost:8000/api/'' @ modelName p @ ''s/'',
             req_timeout = 5000\<rparr>] \<and>
         requests (on_fulfilled p c resp s) = requests s \<and>
         requests (on_rejected e s) = requests s"
proof -
  have route: "getAPIRouteFromModelName (modelName p) t = (modelName p @ ''s'', t)" for t
    using assms by (auto simp add: getAPIRouteFromModelName_def)
  have mount: "requests (snd (effect_mount p s)) =
           requests s @
           [\<lparr>req_method = ''GET'',
             req_url = ''http://localhost:8000/api/'' @ modelName p @ ''s/'',
             req_timeout = 5000\<rparr>]"
    by (simp add: effect_mount_def fetchModelHandler_def route hook_defs)
  have parse: "requests (snd (parseModelListForFormOptions p d t)) = requests t" for d t
    by (simp add: parseModelListForFormOptions_def hook_defs)
  have fulfilled: "requests (on_fulfilled p c resp s) = requests s"
    using parse [of "data resp" "setError EFalse s"]
    by (simp add: on_fulfilled_def hook_defs split_beta Let_def)
  show ?thesis
    using mount fulfilled by (simp add: on_rejected_def hook_defs)
qed

theorem mount_issues_one_get_witness:
  "requests (snd (effect_mount
      \<lparr>parentFormName = ''AddBook'', modelName = ''language'',
        selectedValues = JStr [], canSelectMultiple = False\<rparr> initial)) =
   [\<lparr>req_method = ''GET'', req_url = ''http://localhost:8000/api/languages/'',
     req_timeout = 5000\<rparr>]"
  using mount_issues_one_get [of
      "\<lparr>parentFormName = ''AddBook'', modelName = ''language'',
        selectedValues = JStr [], canSelectMultiple = False\<rparr>" initial]
  by (simp add: initial_def)

section \<open>Properties of the rendered control\<close>

lemma empty_state_message:
  assumes "models s = []" and "\<not> truthy (error s)" and "\<not> isLoading s"
  shows "select (GenericModelSelect p s) =
           \<lparr>sel_value = None, sel_onChange = False, sel_name = None, sel_size = ''1'',
             sel_htmlSize = None,
             sel_aria_label = modelName p @ '' Select'', sel_multiple = False,
             sel_disabled = True,
             sel_children = [PlainOption (Some (''No '' @ modelName p @ '' s Found''))]\<rparr>"
  using assms by (simp add: GenericModelSelect_def)

text \<open>
  C6. With no models, no error and no request in flight, the control is disabled and
  shows a message, but the message has a space between the kind and the plural \<open>s\<close>:
  for the kind genre, after an empty response, it reads \<open>No genre s Found\<close> and not
  \<open>No genres Found\<close>.
\<close>

theorem empty_result_message_text:
  "select (GenericModelSelect genre_props
      (on_fulfilled genre_props (fst (effect_mount genre_props initial)) empty_response
         (snd (effect_mount genre_props initial)))) =
     \<lparr>sel_value = None, sel_onChange = False, sel_name = None, sel_size = ''1'',
             sel_htmlSize = None,
       sel_aria_label = ''genre Select'', sel_multiple = False, sel_disabled = True,
       sel_children = [PlainOption (Some ''No genre s Found'')]\<rparr> \<and>
   ''No genre s Found'' \<noteq> ''No genres Found''"
  by (simp add: GenericModelSelect_def on_fulfilled_def effect_mount_def
      fetchModelHandler_def getAPIRouteFromModelName_def parseModelListForFormOptions_def
      hook_defs initial_def Let_def)

text \<open>
  In the branch with at least one model and no error, the \<open>size\<close> prop handed to
  \<open>Form.Select\<close> is the number of models printed in decimal if that number is at most
  8, and \<open>8\<close> otherwise; every model gets its item.
\<close>

lemma size_prop_at_most_eight:
  assumes "length (models s) > 0" and "\<not> truthy (error s)"
  shows "sel_size (select (GenericModelSelect p s)) =
           (if length (models s) \<le> 8 then string_of_nat (length (models s)) else ''8'') \<and>
         length (sel_children (select (GenericModelSelect p s))) = length (models s)"
proof -
  have eight: "string_of_nat 8 = ''8''"
    by code_simp
  show ?thesis
    using assms by (simp add: GenericModelSelect_def eight)
qed

lemma no_size_attribute: "el_size (Form_Select (select (GenericModelSelect p s))) = None"
  by (simp add: Form_Select_def GenericModelSelect_def Let_def)

text \<open>
  C10. The count capped at 8 is passed as \<open>size\<close>, which \<open>Form.Select\<close> reads as a
  style variant, and not as \<open>htmlSize\<close>, which is the prop that sets the visible rows.
  After a response with three genres the element has the class \<open>form-select-3\<close> and no
  \<open>size\<close> attribute, and with eleven models the class \<open>form-select-8\<close> and again no
  \<open>size\<close> attribute: the number of rows shown is left to the browser.
\<close>

theorem row_count_goes_to_class_name:
  "Form_Select (select (GenericModelSelect genre_props
      (on_fulfilled genre_props (fst (effect_mount genre_props initial))
         \<lparr>data = \<lparr>results =
            [ [(''id'', JNum 1), (''name'', JStr ''Fantasy'')],
              [(''id'', JNum 2), (''name'', JStr ''Poetry'')],
              [(''id'', JNum 3), (''name'', JStr ''Satire'')] ]\<rparr>\<rparr>
         (snd (effect_mount genre_props initial))))) =
     \<lparr>el_class = ''form-select form-select-3'',
      el_size = None,
      el_name = Some ''genre'',
      el_aria_label = ''genre Multi-Select'',
      el_multiple = True,
      el_disabled = False,
      el_children =
        [MultiSelectItem (JNum 1) (JNum 1) (JStr ''Fantasy''),
         MultiSelectItem (JNum 2) (JNum 2) (JStr ''Poetry''),
         MultiSelectItem (JNum 3) (JNum 3) (JStr ''Satire'')]\<rparr> \<and>
   el_class (Form_Select (select (GenericModelSelect genre_props
      (initial\<lparr>models := replicate 11 [(''id'', JNum 4), (''name'', JStr ''Poetry'')],
               error := EFalse\<rparr>)))) = ''form-select form-select-8'' \<and>
   el_size (Form_Select (select (GenericModelSelect genre_props
      (initial\<lparr>models := replicate 11 [(''id'', JNum 4), (''name'', JStr ''Poetry'')],
               error := EFalse\<rparr>)))) = None"
proof -
  have three: "string_of_nat (Suc (Suc (Suc 0))) = ''3''"
    by code_simp
  have eight: "string_of_nat 8 = ''8''"
    by code_simp
  show ?thesis
    by (simp add: Form_Select_def GenericModelSelect_def on_fulfilled_def effect_mount_def
        fetchModelHandler_def getAPIRouteFromModelName_def parseModelListForFormOptions_def
        hook_defs initial_def get_prop_def Let_def three eight)
qed

section \<open>Properties of the change handlers\<close>

lemmas ToNumber_defs = ToNumber_def trim_def StrWhiteSpaceChar_def non_decimal_def
  signed_decimal_def unsigned_decimal_def is_digit_def exponent_part_def
  digits_value_def digit_value_def scale10_def

text \<open>
  The coercion reads the decimal form of a natural number back as that number, so
  options whose values are printed ids are emitted as those ids.
\<close>

lemma of_char_digit_char: "d < 10 \<Longrightarrow> (of_char (digit_char d) :: nat) = 48 + d"
  by (simp add: digit_char_def)

lemma digit_char_props:
  assumes "d < 10"
  shows "is_digit (digit_char d)" "digit_value (digit_char d) = d"
  using assms by (simp_all add: is_digit_def digit_value_def of_char_digit_char)

lemma is_digit_not_other:
  assumes "is_digit c"
  shows "\<not> StrWhiteSpaceChar c"
    and "c \<notin> {CHR ''x'', CHR ''X'', CHR ''o'', CHR ''O'', CHR ''b'', CHR ''B'', CHR ''+'', CHR ''-'', CHR ''I''}"
  using assms by (auto simp add: is_digit_def StrWhiteSpaceChar_def)

lemma string_of_nat_digits: "string_of_nat n \<noteq> [] \<and> list_all is_digit (string_of_nat n)"
proof (induction n rule: string_of_nat.induct)
  case (1 n)
  show ?case
  proof (cases "n < 10")
    case True
    then show ?thesis by (simp add: string_of_nat.simps [of n] digit_char_props)
  next
    case False
    with 1 show ?thesis by (simp add: string_of_nat.simps [of n] digit_char_props)
  qed
qed

lemma digits_value_snoc: "digits_value r (ds @ [c]) = r * digits_value r ds + digit_value c"
  by (simp add: digits_value_def)

lemma digits_value_string_of_nat: "digits_value 10 (string_of_nat n) = n"
proof (induction n rule: string_of_nat.induct)
  case (1 n)
  show ?case
  proof (cases "n < 10")
    case True
    then show ?thesis by (simp add: string_of_nat.simps [of n] digit_char_props digits_value_def)
  next
    case False
    with 1 show ?thesis by (simp add: string_of_nat.simps [of n] digits_value_snoc digit_char_props)
  qed
qed

lemma dropWhile_none: "\<forall>c \<in> set s. \<not> P c \<Longrightarrow> dropWhile P s = s"
  by (cases s) simp_all

lemma trim_digits:
  assumes "list_all is_digit s"
  shows "trim s = s"
proof -
  from assms have none: "\<forall>c \<in> set s. \<not> StrWhiteSpaceChar c"
    by (simp add: list_all_iff is_digit_not_other)
  then have "dropWhile StrWhiteSpaceChar s = s"
    by (rule dropWhile_none)
  moreover from none have "dropWhile StrWhiteSpaceChar (rev s) = rev s"
    by (intro dropWhile_none) simp
  ultimately show ?thesis by (simp add: trim_def)
qed

lemma non_decimal_digits:
  assumes "list_all is_digit s"
  shows "non_decimal s = None"
proof (cases s)
  case Nil
  then show ?thesis by (simp add: non_decimal_def)
next
  case (Cons z t)
  show ?thesis
  proof (cases t)
    case Nil
    with Cons show ?thesis by (simp add: non_decimal_def)
  next
    case (Cons c ds)
    with \<open>s = z # t\<close> assms have "is_digit c" by simp
    then have "c \<notin> {CHR ''x'', CHR ''X'', CHR ''o'', CHR ''O'', CHR ''b'', CHR ''B''}"
      using is_digit_not_other(2) [of c] by simp
    with Cons \<open>s = z # t\<close> show ?thesis by (simp add: non_decimal_def)
  qed
qed

lemma unsigned_decimal_digits:
  assumes "s \<noteq> []" and "list_all is_digit s"
  shows "unsigned_decimal s = Some (Finite (of_nat (digits_value 10 s)))"
proof -
  from assms have "is_digit (hd s)" by (cases s) simp_all
  then have "hd s \<noteq> CHR ''I''" using is_digit_not_other(2) [of "hd s"] by simp
  with assms have no_inf: "s \<noteq> ''Infinity''" by auto
  from assms have tw: "takeWhile is_digit s = s" and dw: "dropWhile is_digit s = []"
    by (simp_all add: list_all_iff)
  show ?thesis
    using assms no_inf
    by (simp add: unsigned_decimal_def tw dw exponent_part_def scale10_def)
qed

lemma ToNumber_digits:
  assumes "s \<noteq> []" and "list_all is_digit s"
  shows "ToNumber s = Finite (of_nat (digits_value 10 s))"
proof -
  from assms have "is_digit (hd s)" by (cases s) simp_all
  then have "hd s \<noteq> CHR ''+''" "hd s \<noteq> CHR ''-''"
    using is_digit_not_other(2) [of "hd s"] by simp_all
  with assms have "signed_decimal s = unsigned_decimal s"
    by (cases s) (simp_all add: signed_decimal_def)
  with assms show ?thesis
    by (simp add: ToNumber_def trim_digits non_decimal_digits unsigned_decimal_digits)
qed

lemma ToNumber_string_of_nat: "ToNumber (string_of_nat n) = Finite (of_nat n)"
  using string_of_nat_digits [of n]
  by (simp add: ToNumber_digits digits_value_string_of_nat)

lemma multi_select_of_printed_ids:
  assumes "canSelectMultiple p"
    and "map opt_value (selectedOptions tgt) = map string_of_nat ids"
  shows "map co_selectedValues (parent_calls (GenericModelSelect_handleSelectChange p tgt)) =
           [Multi (map (\<lambda>n. Finite (of_nat n)) ids)]"
proof -
  have "map (\<lambda>option. ToNumber (opt_value option)) (selectedOptions tgt) =
          map ToNumber (map opt_value (selectedOptions tgt))"
    by simp
  also have "\<dots> = map ToNumber (map string_of_nat ids)"
    using assms(2) by (rule arg_cong)
  also have "\<dots> = map (\<lambda>n. Finite (of_nat n)) ids"
    by (simp add: ToNumber_string_of_nat)
  finally show ?thesis
    using assms(1) by (simp add: GenericModelSelect_handleSelectChange_def Let_def)
qed

lemma ToNumber_1: "ToNumber ''1'' = Finite 1"
  by (simp add: ToNumber_defs)

lemma ToNumber_2: "ToNumber ''2'' = Finite 2"
  by (simp add: ToNumber_defs)

lemma ToNumber_3: "ToNumber ''3'' = Finite 3"
  by (simp add: ToNumber_defs)

text \<open>
  C3. On a change of a multi-select, the handler calls the parent once, with the array
  of the selected options' values, each coerced to a number, in the order of the
  selected options. Selecting the options \<open>"1"\<close> and \<open>"3"\<close> yields the numbers 1 and 3.
\<close>

theorem multi_select_emits_numbers:
  assumes "canSelectMultiple p"
  shows "parent_calls (GenericModelSelect_handleSelectChange p tgt) =
           [\<lparr>co_modelName = modelName p,
             co_selectedValues =
               Multi (map (\<lambda>option. ToNumber (opt_value option)) (selectedOptions tgt))\<rparr>]"
  using assms by (simp add: GenericModelSelect_handleSelectChange_def Let_def)

theorem multi_select_emits_numbers_witness:
  "parent_calls (GenericModelSelect_handleSelectChange genre_props
      \<lparr>tgt_value = ''1'',
        selectedOptions = [\<lparr>opt_value = ''1''\<rparr>, \<lparr>opt_value = ''3''\<rparr>]\<rparr>) =
   [\<lparr>co_modelName = ''genre'', co_selectedValues = Multi [Finite 1, Finite 3]\<rparr>]"
  using multi_select_emits_numbers [of genre_props
      "\<lparr>tgt_value = ''1'',
        selectedOptions = [\<lparr>opt_value = ''1''\<rparr>, \<lparr>opt_value = ''3''\<rparr>]\<rparr>"]
  by (simp add: ToNumber_1 ToNumber_3)

text \<open>
  C7. On a change of a single-select, the handler calls the parent once with the
  control's \<open>value\<close>, the string as it is. In either mode, every object passed to the
  parent carries the \<open>modelName\<close> the component was given.
\<close>

theorem single_select_emits_raw_value:
  "(\<not> canSelectMultiple p \<longrightarrow>
      parent_calls (GenericModelSelect_handleSelectChange p tgt) =
        [\<lparr>co_modelName = modelName p, co_selectedValues = Single (tgt_value tgt)\<rparr>]) \<and>
   (\<forall>c \<in> set (parent_calls (GenericModelSelect_handleSelectChange p tgt)).
      co_modelName c = modelName p)"
  by (simp add: GenericModelSelect_handleSelectChange_def Let_def)

theorem single_select_emits_raw_value_witness:
  "parent_calls (GenericModelSelect_handleSelectChange
      \<lparr>parentFormName = ''AddBook'', modelName = ''author'',
        selectedValues = JStr [], canSelectMultiple = False\<rparr>
      \<lparr>tgt_value = ''12'', selectedOptions = [\<lparr>opt_value = ''12''\<rparr>]\<rparr>) =
   [\<lparr>co_modelName = ''author'', co_selectedValues = Single ''12''\<rparr>]"
  using single_select_emits_raw_value [of
      "\<lparr>parentFormName = ''AddBook'', modelName = ''author'',
        selectedValues = JStr [], canSelectMultiple = False\<rparr>"
      "\<lparr>tgt_value = ''12'', selectedOptions = [\<lparr>opt_value = ''12''\<rparr>]\<rparr>"]
  by simp

text \<open>
  C9. The change handler of GenreMultiSelect computes the same array of coerced values
  as the multi-select branch of the generic handler, logs it, and never calls the
  parent's \<open>onChange\<close>. When the selected options are among the three the component
  renders, the array consists of the integers 1, 2 and 3.
\<close>

theorem genre_selection_is_only_logged:
  "GenreMultiSelect_handleSelectChange tgt =
     [ConsoleGroup ''Genre Select Change Handler'',
      ConsoleInfo [LOptions (selectedOptions tgt)],
      ConsoleInfo [LSelected (Multi (map (\<lambda>option. ToNumber (opt_value option))
                                         (selectedOptions tgt)))],
      ConsoleGroupEnd] \<and>
   parent_calls (GenreMultiSelect_handleSelectChange tgt) = [] \<and>
   map co_selectedValues
     (parent_calls (GenericModelSelect_handleSelectChange (p\<lparr>canSelectMultiple := True\<rparr>) tgt)) =
     [Multi (map (\<lambda>option. ToNumber (opt_value option)) (selectedOptions tgt))] \<and>
   (opt_value ` set (selectedOptions tgt) \<subseteq> fst ` set GenreMultiSelect_options \<longrightarrow>
      set (map (\<lambda>option. ToNumber (opt_value option)) (selectedOptions tgt)) \<subseteq>
        {Finite 1, Finite 2, Finite 3})"
proof -
  have logged: "GenreMultiSelect_handleSelectChange tgt =
     [ConsoleGroup ''Genre Select Change Handler'',
      ConsoleInfo [LOptions (selectedOptions tgt)],
      ConsoleInfo [LSelected (Multi (map (\<lambda>option. ToNumber (opt_value option))
                                         (selectedOptions tgt)))],
      ConsoleGroupEnd]"
    by (simp add: GenreMultiSelect_handleSelectChange_def Let_def)
  have silent: "parent_calls (GenreMultiSelect_handleSelectChange tgt) = []"
    by (simp add: logged)
  have mirror: "map co_selectedValues
     (parent_calls (GenericModelSelect_handleSelectChange (p\<lparr>canSelectMultiple := True\<rparr>) tgt)) =
     [Multi (map (\<lambda>option. ToNumber (opt_value option)) (selectedOptions tgt))]"
    by (simp add: GenericModelSelect_handleSelectChange_def Let_def)
  have option_values: "fst ` set GenreMultiSelect_options = {''1'', ''2'', ''3''}"
    by (simp add: GenreMultiSelect_options_def)
  have integers: "set (map (\<lambda>option. ToNumber (opt_value option)) (selectedOptions tgt)) \<subseteq>
        {Finite 1, Finite 2, Finite 3}"
    if among: "opt_value ` set (selectedOptions tgt) \<subseteq> fst ` set GenreMultiSelect_options"
  proof
    fix n
    assume "n \<in> set (map (\<lambda>option. ToNumber (opt_value option)) (selectedOptions tgt))"
    then obtain option where sel: "option \<in> set (selectedOptions tgt)"
      and n: "n = ToNumber (opt_value option)"
      by auto
    from sel among have "opt_value option \<in> {''1'', ''2'', ''3''}"
      unfolding option_values by blast
    then consider "opt_value option = ''1''" | "opt_value option = ''2''"
      | "opt_value option = ''3''"
      by blast
    then show "n \<in> {Finite 1, Finite 2, Finite 3}"
      by cases (simp_all add: n ToNumber_1 ToNumber_2 ToNumber_3)
  qed
  from logged silent mirror integers show ?thesis
    by blast
qed

theorem genre_selection_is_only_logged_witness:
  "GenreMultiSelect_handleSelectChange
     \<lparr>tgt_value = ''1'',
       selectedOptions = [\<lparr>opt_value = ''1''\<rparr>, \<lparr>opt_value = ''3''\<rparr>]\<rparr> =
     [ConsoleGroup ''Genre Select Change Handler'',
      ConsoleInfo [LOptions [\<lparr>opt_value = ''1''\<rparr>, \<lparr>opt_value = ''3''\<rparr>] ],
      ConsoleInfo [LSelected (Multi [Finite 1, Finite 3])],
      ConsoleGroupEnd] \<and>
   opt_value ` set [\<lparr>opt_value = ''1''\<rparr>, \<lparr>opt_value = ''3''\<rparr>] \<subseteq>
     fst ` set GenreMultiSelect_options"
  using genre_selection_is_only_logged [of
      "\<lparr>tgt_value = ''1'',
        selectedOptions = [\<lparr>opt_value = ''1''\<rparr>, \<lparr>opt_value = ''3''\<rparr>]\<rparr>" genre_props]
  by (simp add: ToNumber_1 ToNumber_3 GenreMultiSelect_options_def)

end
